theory Spec2Isabelle
  imports Main "HOL-Library.Word"
begin

section \<open>The SurveyZama contract (contracts/Survey\_.sol)\<close>

subsection \<open>Value types\<close>

text \<open>
  An encrypted value (\<open>euint32\<close>, \<open>externalEuint32\<close>) is a 32-byte handle. Category
  tags and timestamps are \<open>uint256\<close> values supplied by the caller and the chain.
  Response ids are array lengths (\<open>responseIds.length\<close>) and loop counters; they are
  natural numbers here, since an array of \<open>2 ^ 256\<close> elements cannot be built.
  The counter of \<open>updateCategoryStats\<close> is a \<open>uint32\<close> under Solidity 0.8 checked
  arithmetic: its increment reverts at the maximum.
\<close>

type_synonym bytes32 = "256 word"
type_synonym euint32 = bytes32
type_synonym externalEuint32 = bytes32
type_synonym uint256 = "256 word"
type_synonym uint32 = "32 word"
type_synonym bytes = "8 word list"

record EncryptedResponse =
  encryptedAge :: euint32
  encryptedIncome :: euint32
  encryptedSatisfaction :: euint32
  publicCategory :: uint256
  timestamp :: uint256
  isVerified :: bool

record SurveyStats =
  totalResponses :: uint32
  sumAge :: euint32
  sumIncome :: euint32
  sumSatisfaction :: euint32

datatype event =
  ResponseSubmitted nat uint256
| ResponseVerified nat
| StatsUpdated uint256 uint256

text \<open>
  \<open>FHE.allowThis\<close> and \<open>FHE.makePubliclyDecryptable\<close> write the access-control list of
  the FHE library, not the contract's storage; the calls are kept as a log.
\<close>

datatype acl_call = AllowThis euint32 | MakePubliclyDecryptable euint32

text \<open>
  A call ends with \<open>Inr\<close> of the new storage, or reverts: a failed \<open>require\<close> with its
  message, a revert inside the FHE library, or the overflow panic of checked arithmetic.
\<close>

datatype error = Require string | FHE_revert | Panic_overflow

subsection \<open>The FHE library\<close>

text \<open>
  The library (\<open>@fhevm/solidity/lib/FHE.sol\<close>) is imported, not part of the contract.
  Its functions are parameters, each a function of its arguments within one call:
  \<open>FHE.fromExternal\<close> yields a handle or reverts (\<open>None\<close>), \<open>FHE.isInitialized\<close>
  tests a handle, \<open>FHE.toBytes32\<close> unwraps it, \<open>FHE.checkSignatures\<close> returns or
  reverts (\<open>False\<close>), and \<open>FHE.add\<close> is the homomorphic addition of two handles.
\<close>

record FHE =
  FHE_fromExternal :: "externalEuint32 \<Rightarrow> bytes \<Rightarrow> euint32 option"
  FHE_isInitialized :: "euint32 \<Rightarrow> bool"
  FHE_toBytes32 :: "euint32 \<Rightarrow> bytes32"
  FHE_checkSignatures :: "bytes32 list \<Rightarrow> bytes \<Rightarrow> bytes \<Rightarrow> bool"
  FHE_add :: "euint32 \<Rightarrow> euint32 \<Rightarrow> euint32"

subsection \<open>Storage\<close>

record SurveyZama =
  responses :: "nat \<Rightarrow> EncryptedResponse"
  categoryStats :: "uint256 \<Rightarrow> SurveyStats"
  responseIds :: "nat list"
  categoryIds :: "uint256 list"
  events :: "event list"
  acl :: "acl_call list"

text \<open>A mapping entry that was never written reads as the zero value of its type.\<close>

definition zero_response :: EncryptedResponse where
  "zero_response =
     \<lparr>encryptedAge = 0, encryptedIncome = 0, encryptedSatisfaction = 0,
      publicCategory = 0, timestamp = 0, isVerified = False\<rparr>"

definition zero_stats :: SurveyStats where
  "zero_stats = \<lparr>totalResponses = 0, sumAge = 0, sumIncome = 0, sumSatisfaction = 0\<rparr>"

text \<open>The constructor writes nothing.\<close>

definition constructor :: SurveyZama where
  "constructor =
     \<lparr>responses = (\<lambda>_. zero_response), categoryStats = (\<lambda>_. zero_stats),
      responseIds = [], categoryIds = [], events = [], acl = []\<rparr>"

subsection \<open>submitResponse\<close>

definition submitResponse ::
  "FHE \<Rightarrow> uint256 \<Rightarrow> externalEuint32 \<Rightarrow> bytes \<Rightarrow> externalEuint32 \<Rightarrow> bytes \<Rightarrow>
   externalEuint32 \<Rightarrow> bytes \<Rightarrow> uint256 \<Rightarrow> SurveyZama \<Rightarrow> error + SurveyZama" where
  "submitResponse lib category encAge ageProof encIncome incomeProof encSatisfaction
      satisfactionProof block_timestamp s =
    (let responseId = length (responseIds s) in
     case FHE_fromExternal lib encAge ageProof of
       None \<Rightarrow> Inl FHE_revert
     | Some a0 \<Rightarrow>
     if \<not> FHE_isInitialized lib a0 then Inl (Require ''Invalid age encryption'') else
     case FHE_fromExternal lib encIncome incomeProof of
       None \<Rightarrow> Inl FHE_revert
     | Some i0 \<Rightarrow>
     if \<not> FHE_isInitialized lib i0 then Inl (Require ''Invalid income encryption'') else
     case FHE_fromExternal lib encSatisfaction satisfactionProof of
       None \<Rightarrow> Inl FHE_revert
     | Some t0 \<Rightarrow>
     if \<not> FHE_isInitialized lib t0 then Inl (Require ''Invalid satisfaction encryption'') else
     case FHE_fromExternal lib encAge ageProof of
       None \<Rightarrow> Inl FHE_revert
     | Some a \<Rightarrow>
     case FHE_fromExternal lib encIncome incomeProof of
       None \<Rightarrow> Inl FHE_revert
     | Some i \<Rightarrow>
     case FHE_fromExternal lib encSatisfaction satisfactionProof of
       None \<Rightarrow> Inl FHE_revert
     | Some t \<Rightarrow>
     let s1 = s\<lparr>responses := (responses s)(responseId :=
                  \<lparr>encryptedAge = a, encryptedIncome = i, encryptedSatisfaction = t,
                   publicCategory = category, timestamp = block_timestamp,
                   isVerified = False\<rparr>)\<rparr>;
         r = responses s1 responseId;
         s2 = s1\<lparr>acl := acl s1 @
                  [AllowThis (encryptedAge r), AllowThis (encryptedIncome r),
                   AllowThis (encryptedSatisfaction r),
                   MakePubliclyDecryptable (encryptedAge r),
                   MakePubliclyDecryptable (encryptedIncome r),
                   MakePubliclyDecryptable (encryptedSatisfaction r)]\<rparr>;
         s3 = s2\<lparr>responseIds := responseIds s2 @ [responseId]\<rparr>;
         s4 = (if totalResponses (categoryStats s3 category) = 0
               then s3\<lparr>categoryIds := categoryIds s3 @ [category]\<rparr> else s3)
     in Inr (s4\<lparr>events := events s4 @ [ResponseSubmitted responseId category]\<rparr>))"

subsection \<open>verifyResponse\<close>

definition verifyResponse ::
  "FHE \<Rightarrow> nat \<Rightarrow> bytes \<Rightarrow> bytes \<Rightarrow> bytes \<Rightarrow> SurveyZama \<Rightarrow> error + SurveyZama" where
  "verifyResponse lib responseId ageProof incomeProof satisfactionProof s =
    (if \<not> responseId < length (responseIds s) then Inl (Require ''Invalid response ID'')
     else if isVerified (responses s responseId)
       then Inl (Require ''Response already verified'')
     else
       let cts = [FHE_toBytes32 lib (encryptedAge (responses s responseId)),
                  FHE_toBytes32 lib (encryptedIncome (responses s responseId)),
                  FHE_toBytes32 lib (encryptedSatisfaction (responses s responseId))]
       in if \<not> FHE_checkSignatures lib cts [] ageProof then Inl FHE_revert
          else if \<not> FHE_checkSignatures lib cts [] incomeProof then Inl FHE_revert
          else if \<not> FHE_checkSignatures lib cts [] satisfactionProof then Inl FHE_revert
          else Inr (s\<lparr>responses := (responses s)(responseId :=
                         (responses s responseId)\<lparr>isVerified := True\<rparr>),
                      events := events s @ [ResponseVerified responseId]\<rparr>))"

subsection \<open>updateCategoryStats\<close>

text \<open>
  The \<open>for\<close> loop over \<open>i < responseIds.length\<close>, with its four local variables as
  arguments. It reads \<open>responses[i]\<close>; \<open>count++\<close> reverts when \<open>count\<close> is the largest
  \<open>uint32\<close>.
\<close>

function stats_loop ::
  "FHE \<Rightarrow> SurveyZama \<Rightarrow> uint256 \<Rightarrow> nat \<Rightarrow> euint32 \<Rightarrow> euint32 \<Rightarrow> euint32 \<Rightarrow> uint32 \<Rightarrow>
   error + (euint32 \<times> euint32 \<times> euint32 \<times> uint32)" where
  "stats_loop lib s categoryId i sum_age sum_income sum_satisfaction count =
    (if i < length (responseIds s) then
       (if publicCategory (responses s i) = categoryId \<and> isVerified (responses s i) then
          (if count = - 1 then Inl Panic_overflow
           else stats_loop lib s categoryId (i + 1)
                  (FHE_add lib sum_age (encryptedAge (responses s i)))
                  (FHE_add lib sum_income (encryptedIncome (responses s i)))
                  (FHE_add lib sum_satisfaction (encryptedSatisfaction (responses s i)))
                  (count + 1))
        else stats_loop lib s categoryId (i + 1) sum_age sum_income sum_satisfaction count)
     else Inr (sum_age, sum_income, sum_satisfaction, count))"
  by pat_completeness auto
termination
  by (relation "measure (\<lambda>(lib, s, c, i, a, b, d, n). length (responseIds s) - i)") auto

declare stats_loop.simps [simp del]

definition updateCategoryStats :: "FHE \<Rightarrow> uint256 \<Rightarrow> SurveyZama \<Rightarrow> error + SurveyZama" where
  "updateCategoryStats lib categoryId s =
    (if \<not> 0 < totalResponses (categoryStats s categoryId)
       then Inl (Require ''Category has no responses'')
     else
       case stats_loop lib s categoryId 0 0 0 0 0 of
         Inl e \<Rightarrow> Inl e
       | Inr (sum_age, sum_income, sum_satisfaction, count) \<Rightarrow>
           Inr (s\<lparr>categoryStats := (categoryStats s)(categoryId :=
                     \<lparr>totalResponses = count, sumAge = sum_age, sumIncome = sum_income,
                      sumSatisfaction = sum_satisfaction\<rparr>),
                   events := events s @ [StatsUpdated categoryId (ucast count)]\<rparr>))"

subsection \<open>Views\<close>

definition getResponse ::
  "SurveyZama \<Rightarrow> nat \<Rightarrow> error + (euint32 \<times> euint32 \<times> euint32 \<times> uint256 \<times> uint256 \<times> bool)" where
  "getResponse s responseId =
    (if \<not> responseId < length (responseIds s) then Inl (Require ''Invalid response ID'')
     else let response = responses s responseId
          in Inr (encryptedAge response, encryptedIncome response,
                  encryptedSatisfaction response, publicCategory response,
                  timestamp response, isVerified response))"

definition getCategoryStats ::
  "SurveyZama \<Rightarrow> uint256 \<Rightarrow> error + (uint32 \<times> euint32 \<times> euint32 \<times> euint32)" where
  "getCategoryStats s categoryId =
    (let stats = categoryStats s categoryId
     in Inr (totalResponses stats, sumAge stats, sumIncome stats, sumSatisfaction stats))"

definition getAllResponseIds :: "SurveyZama \<Rightarrow> error + nat list" where
  "getAllResponseIds s = Inr (responseIds s)"

definition getAllCategoryIds :: "SurveyZama \<Rightarrow> error + uint256 list" where
  "getAllCategoryIds s = Inr (categoryIds s)"

definition isAvailable :: bool where
  "isAvailable = True"

subsection \<open>Transactions and reachable storage\<close>

text \<open>A reverted call leaves the storage as it was before the call.\<close>

definition transact :: "(SurveyZama \<Rightarrow> error + SurveyZama) \<Rightarrow> SurveyZama \<Rightarrow> SurveyZama" where
  "transact call s = (case call s of Inl e \<Rightarrow> s | Inr s' \<Rightarrow> s')"

text \<open>One step is one successful call of a state-changing function, with any arguments.\<close>

inductive step :: "FHE \<Rightarrow> SurveyZama \<Rightarrow> SurveyZama \<Rightarrow> bool" for lib :: FHE where
  submit:
    "submitResponse lib category encAge ageProof encIncome incomeProof encSatisfaction
       satisfactionProof block_timestamp s = Inr s' \<Longrightarrow> step lib s s'"
| verify:
    "verifyResponse lib responseId ageProof incomeProof satisfactionProof s = Inr s'
       \<Longrightarrow> step lib s s'"
| update:
    "updateCategoryStats lib categoryId s = Inr s' \<Longrightarrow> step lib s s'"

definition reachable :: "FHE \<Rightarrow> SurveyZama \<Rightarrow> bool" where
  "reachable lib s = (step lib)\<^sup>*\<^sup>* constructor s"

subsection \<open>Notions of the specification\<close>

text \<open>
  The struct \<open>EncryptedResponse\<close> has no member for revealed values, and
  \<open>verifyResponse\<close> receives none (it passes the empty string as cleartexts to
  \<open>FHE.checkSignatures\<close>): the plaintexts a record holds are the empty list.
\<close>

definition plaintexts :: "EncryptedResponse \<Rightarrow> uint32 list" where
  "plaintexts r = []"

text \<open>The ids of the stored responses that were submitted with a category tag.\<close>

definition tagged :: "SurveyZama \<Rightarrow> uint256 \<Rightarrow> nat list" where
  "tagged s c = filter (\<lambda>i. publicCategory (responses s i) = c) [0..<length (responseIds s)]"

text \<open>Those among them that are verified: the set the aggregation is specified over.\<close>

definition verified_in :: "SurveyZama \<Rightarrow> uint256 \<Rightarrow> nat list" where
  "verified_in s c =
     filter (\<lambda>i. publicCategory (responses s i) = c \<and> isVerified (responses s i))
       [0..<length (responseIds s)]"

text \<open>
  A field's proof fails validation when \<open>FHE.fromExternal\<close> reverts on it or yields a
  handle that \<open>FHE.isInitialized\<close> rejects.
\<close>

definition proof_fails :: "FHE \<Rightarrow> externalEuint32 \<Rightarrow> bytes \<Rightarrow> bool" where
  "proof_fails lib ct prf =
     (case FHE_fromExternal lib ct prf of None \<Rightarrow> True | Some h \<Rightarrow> \<not> FHE_isInitialized lib h)"

section \<open>The client's decryption flow (frontend/web/src/App.tsx, decryptData)\<close>

text \<open>
  \<open>decryptData\<close> awaits calls on the wallet, the contract handles and the decryption
  hook. Each awaited call is a parameter that resolves with a value or rejects with the
  message of the thrown error (the empty string when it has none). The model returns the
  function's result (\<open>None\<close> for \<open>null\<close>) and the trace of what it did: the calls it
  awaited and the transaction statuses it showed. The timers that hide the status and the
  \<open>isDecrypting\<close> flag are display state and are left out. The contract functions the
  client calls (\<open>getBusinessData\<close>, \<open>getEncryptedValue\<close>, \<open>verifyDecryption\<close>) are
  not those of \<open>SurveyZama\<close>; their outcomes are fields of the environment. The
  unsigned integers they return reach the client as non-negative bigints.
\<close>

datatype 'a awaited = Rejects string | Resolves 'a

text \<open>
  The JavaScript numbers the function can return: a double whose value is a non-negative
  integer (held exactly), \<open>NaN\<close>, or \<open>Infinity\<close>.
\<close>

datatype js_number = Number nat | NaN | Infinity

datatype tx_status = St_pending | St_success | St_error

datatype client_effect =
  SetTransactionStatus tx_status string
| Await_getContractReadOnly
| Await_getContractWithSigner
| Await_getBusinessData string
| Await_getEncryptedValue string
| Await_verifyDecryption "bytes32 list" string string
| Await_loadData

record surveyData =
  surveyData_isVerified :: bool
  surveyData_decryptedValue :: nat

record client_env =
  isConnected :: bool
  address :: string
  contractAddress :: string
  getContractReadOnly :: "bool awaited"
  getContractWithSigner :: "bool awaited"
  getBusinessData :: "string \<Rightarrow> surveyData awaited"
  getEncryptedValue :: "string \<Rightarrow> bytes32 awaited"
  verifyDecryption :: "bytes32 list \<Rightarrow> string \<Rightarrow> string \<Rightarrow> (bytes32 \<rightharpoonup> nat) awaited"

text \<open>
  \<open>Number(x)\<close> for a non-negative bigint \<open>x\<close> is the double nearest to \<open>x\<close>: below
  \<open>2 ^ 53\<close> it is \<open>x\<close> itself; above, \<open>x\<close> is rounded to 53 significant bits, a
  tie going to the even significand, and a result of \<open>2 ^ 1024\<close> or more is
  \<open>Infinity\<close>. A handle missing from the decryption's \<open>clearValues\<close> reads as
  \<open>undefined\<close>, which \<open>Number\<close> turns into \<open>NaN\<close>.
\<close>

fun bit_length :: "nat \<Rightarrow> nat" where
  "bit_length n = (if n = 0 then 0 else Suc (bit_length (n div 2)))"

declare bit_length.simps [simp del]

definition Number_of_bigint :: "nat \<Rightarrow> js_number" where
  "Number_of_bigint x =
    (if x < 2 ^ 53 then Number x
     else
       let e = bit_length x - 53;
           q = x div 2 ^ e;
           r = x mod 2 ^ e;
           half = 2 ^ (e - 1);
           rounded = (if half < r \<or> (r = half \<and> odd q) then (q + 1) * 2 ^ e else q * 2 ^ e)
       in if 2 ^ 1024 \<le> rounded then Infinity else Number rounded)"

text \<open>\<open>v || 0\<close> on a number: \<open>0\<close> and \<open>NaN\<close> are falsy.\<close>

definition or_zero :: "js_number \<Rightarrow> js_number" where
  "or_zero v = (if v = Number 0 \<or> v = NaN then Number 0 else v)"

text \<open>\<open>String.prototype.includes\<close>: the needle occurs at some position.\<close>

fun str_includes :: "string \<Rightarrow> string \<Rightarrow> bool" where
  "str_includes [] needle = (needle = [])"
| "str_includes (c # cs) needle =
     (take (length needle) (c # cs) = needle \<or> str_includes cs needle)"

text \<open>The \<open>catch\<close> block, entered with the message of the error and the trace so far.\<close>

definition decryptData_catch ::
  "string \<Rightarrow> client_effect list \<Rightarrow> js_number option \<times> client_effect list" where
  "decryptData_catch message trace =
    (if str_includes message ''Data already verified''
     then (None, trace @ [SetTransactionStatus St_success ''Data is already verified on-chain'',
                          Await_loadData])
     else (None, trace @ [SetTransactionStatus St_error
             (''Decryption failed: '' @ (if message = [] then ''Unknown error'' else message))]))"

definition decryptData ::
  "client_env \<Rightarrow> string \<Rightarrow> js_number option \<times> client_effect list" where
  "decryptData env surveyId =
    (if \<not> isConnected env \<or> address env = []
     then (None, [SetTransactionStatus St_error ''Please connect wallet first''])
     else
       let t1 = [Await_getContractReadOnly] in
       case getContractReadOnly env of
         Rejects m \<Rightarrow> decryptData_catch m t1
       | Resolves contractRead \<Rightarrow>
       if \<not> contractRead then (None, t1) else
       let t2 = t1 @ [Await_getBusinessData surveyId] in
       case getBusinessData env surveyId of
         Rejects m \<Rightarrow> decryptData_catch m t2
       | Resolves d \<Rightarrow>
       if surveyData_isVerified d
       then (Some (or_zero (Number_of_bigint (surveyData_decryptedValue d))),
             t2 @ [SetTransactionStatus St_success ''Data already verified on-chain''])
       else
       let t3 = t2 @ [Await_getContractWithSigner] in
       case getContractWithSigner env of
         Rejects m \<Rightarrow> decryptData_catch m t3
       | Resolves contractWrite \<Rightarrow>
       if \<not> contractWrite then (None, t3) else
       let t4 = t3 @ [Await_getEncryptedValue surveyId] in
       case getEncryptedValue env surveyId of
         Rejects m \<Rightarrow> decryptData_catch m t4
       | Resolves encryptedValueHandle \<Rightarrow>
       let t5 = t4 @ [Await_verifyDecryption [encryptedValueHandle] (contractAddress env)
                        surveyId] in
       case verifyDecryption env [encryptedValueHandle] (contractAddress env) surveyId of
         Rejects m \<Rightarrow> decryptData_catch m t5
       | Resolves clearValues \<Rightarrow>
           ((case clearValues encryptedValueHandle of
               None \<Rightarrow> Some NaN
             | Some clearValue \<Rightarrow> Some (Number_of_bigint clearValue)),
            t5 @ [SetTransactionStatus St_pending ''Verifying decryption on-chain...'',
                  Await_loadData,
                  SetTransactionStatus St_success
                    ''Data decrypted and verified successfully!'']))"

section \<open>A test library and test runs\<close>

text \<open>
  A stand-in for the FHE library, to run the contract on concrete inputs: an input proof
  is accepted when it is not empty, a handle is initialised when it is not zero, a
  decryption proof is accepted when it is not empty, and handles add as numbers.
\<close>

definition test_FHE :: FHE where
  "test_FHE =
     \<lparr>FHE_fromExternal = (\<lambda>h p. if p = [] then None else Some h),
      FHE_isInitialized = (\<lambda>h. h \<noteq> 0),
      FHE_toBytes32 = (\<lambda>h. h),
      FHE_checkSignatures = (\<lambda>cts clear p. p \<noteq> []),
      FHE_add = (\<lambda>a b. a + b)\<rparr>"

text \<open>
  Two responses in category 1, with satisfaction 8 and 6, submitted and verified one
  after the other.
\<close>

definition one_submitted :: SurveyZama where
  "one_submitted = transact (submitResponse test_FHE 1 30 [1] 50000 [1] 8 [1] 1000) constructor"

definition one_verified :: SurveyZama where
  "one_verified = transact (verifyResponse test_FHE 0 [1] [1] [1]) one_submitted"

definition two_submitted :: SurveyZama where
  "two_submitted = transact (submitResponse test_FHE 1 25 [1] 40000 [1] 6 [1] 2000) one_verified"

definition two_verified :: SurveyZama where
  "two_verified = transact (verifyResponse test_FHE 1 [1] [1] [1]) two_submitted"

text \<open>
  The storage \<open>two_verified\<close> with a positive count written into the cache entry of
  category 1. No sequence of calls produces it; it lets \<open>updateCategoryStats\<close> pass its
  guard and run its loop.
\<close>

definition seeded_cache :: SurveyZama where
  "seeded_cache =
     two_verified\<lparr>categoryStats :=
       (categoryStats two_verified)(1 := zero_stats\<lparr>totalResponses := 1\<rparr>)\<rparr>"

definition recomputed :: SurveyZama where
  "recomputed = transact (updateCategoryStats test_FHE 1) seeded_cache"

text \<open>A client whose read of the record shows it verified, with the stored value 8.\<close>

definition test_client :: client_env where
  "test_client =
     \<lparr>isConnected = True, address = ''0xA1'', contractAddress = ''0xC0'',
      getContractReadOnly = Resolves True,
      getContractWithSigner = Resolves True,
      getBusinessData = (\<lambda>_. Resolves \<lparr>surveyData_isVerified = True,
                                         surveyData_decryptedValue = 8\<rparr>),
      getEncryptedValue = (\<lambda>_. Resolves 8),
      verifyDecryption = (\<lambda>_ _ _. Rejects ''Response already verified'')\<rparr>"

section \<open>Properties\<close>

subsection \<open>What a successful call changes\<close>

lemma submit_cases:
  assumes "submitResponse lib category encAge ageProof encIncome incomeProof encSatisfaction
       satisfactionProof block_timestamp s = Inr s'"
  obtains a i t where
    "FHE_fromExternal lib encAge ageProof = Some a" "FHE_isInitialized lib a"
    "FHE_fromExternal lib encIncome incomeProof = Some i" "FHE_isInitialized lib i"
    "FHE_fromExternal lib encSatisfaction satisfactionProof = Some t" "FHE_isInitialized lib t"
    "s' = s\<lparr>responses := (responses s)(length (responseIds s) :=
               \<lparr>encryptedAge = a, encryptedIncome = i, encryptedSatisfaction = t,
                publicCategory = category, timestamp = block_timestamp, isVerified = False\<rparr>),
            acl := acl s @ [AllowThis a, AllowThis i, AllowThis t,
               MakePubliclyDecryptable a, MakePubliclyDecryptable i, MakePubliclyDecryptable t],
            responseIds := responseIds s @ [length (responseIds s)],
            categoryIds := (if totalResponses (categoryStats s category) = 0
                            then categoryIds s @ [category] else categoryIds s),
            events := events s @ [ResponseSubmitted (length (responseIds s)) category]\<rparr>"
  using assms
  by (auto simp: submitResponse_def Let_def split: option.splits if_splits)

lemma verify_cases:
  assumes "verifyResponse lib responseId ageProof incomeProof satisfactionProof s = Inr s'"
  shows "responseId < length (responseIds s) \<and> \<not> isVerified (responses s responseId) \<and>
    s' = s\<lparr>responses := (responses s)(responseId := (responses s responseId)\<lparr>isVerified := True\<rparr>),
           events := events s @ [ResponseVerified responseId]\<rparr>"
  using assms
  by (auto simp: verifyResponse_def Let_def split: if_splits)

lemma update_cases:
  assumes "updateCategoryStats lib categoryId s = Inr s'"
  shows "0 < totalResponses (categoryStats s categoryId) \<and>
    (\<exists>a i t n. stats_loop lib s categoryId 0 0 0 0 0 = Inr (a, i, t, n) \<and>
      s' = s\<lparr>categoryStats := (categoryStats s)(categoryId :=
                     \<lparr>totalResponses = n, sumAge = a, sumIncome = i, sumSatisfaction = t\<rparr>),
             events := events s @ [StatsUpdated categoryId (ucast n)]\<rparr>)"
  using assms
  by (auto simp: updateCategoryStats_def split: if_splits sum.splits)

subsection \<open>The loop\<close>

lemma count_increment: "n \<noteq> - 1 \<Longrightarrow> unat (n + 1) = Suc (unat n)" for n :: uint32
proof -
  assume "n \<noteq> - 1"
  then have "1 + n \<noteq> 0"
    using max_word_wrap [of n] by (auto simp: add.commute)
  then show ?thesis
    using unatSuc [of n] by (simp add: add.commute)
qed

lemma stats_loop_result:
  assumes "stats_loop lib s c i a b d n = Inr (a', b', d', n')"
  shows "a' = foldl (FHE_add lib) a (map (\<lambda>j. encryptedAge (responses s j))
               (filter (\<lambda>j. publicCategory (responses s j) = c \<and> isVerified (responses s j))
                  [i..<length (responseIds s)])) \<and>
         b' = foldl (FHE_add lib) b (map (\<lambda>j. encryptedIncome (responses s j))
               (filter (\<lambda>j. publicCategory (responses s j) = c \<and> isVerified (responses s j))
                  [i..<length (responseIds s)])) \<and>
         d' = foldl (FHE_add lib) d (map (\<lambda>j. encryptedSatisfaction (responses s j))
               (filter (\<lambda>j. publicCategory (responses s j) = c \<and> isVerified (responses s j))
                  [i..<length (responseIds s)])) \<and>
         unat n' = unat n +
           length (filter (\<lambda>j. publicCategory (responses s j) = c \<and> isVerified (responses s j))
                  [i..<length (responseIds s)])"
  using assms
proof (induction lib s c i a b d n rule: stats_loop.induct)
  case (1 lib s c i a b d n)
  show ?case
  proof (cases "i < length (responseIds s)")
    case False
    with "1.prems" show ?thesis
      by (simp add: stats_loop.simps [of lib s c i])
  next
    case inside: True
    then have upt: "[i..<length (responseIds s)] = i # [i + 1..<length (responseIds s)]"
      by (simp add: upt_conv_Cons)
    show ?thesis
    proof (cases "publicCategory (responses s i) = c \<and> isVerified (responses s i)")
      case False
      with inside "1.prems"
      have "stats_loop lib s c (i + 1) a b d n = Inr (a', b', d', n')"
        by (simp add: stats_loop.simps [of lib s c i])
      from "1.IH"(2) [OF inside False this] False show ?thesis
        by (simp add: upt)
    next
      case True
      with inside "1.prems" have nmax: "n \<noteq> - 1"
        by (auto simp: stats_loop.simps [of lib s c i] split: if_splits)
      with True inside "1.prems"
      have "stats_loop lib s c (i + 1)
              (FHE_add lib a (encryptedAge (responses s i)))
              (FHE_add lib b (encryptedIncome (responses s i)))
              (FHE_add lib d (encryptedSatisfaction (responses s i))) (n + 1)
            = Inr (a', b', d', n')"
        by (simp add: stats_loop.simps [of lib s c i])
      from "1.IH"(1) [OF inside True nmax this] True show ?thesis
        by (simp add: upt count_increment [OF nmax])
    qed
  qed
qed

subsection \<open>The test runs, evaluated\<close>

lemma one_submitted_call:
  "submitResponse test_FHE 1 30 [1] 50000 [1] 8 [1] 1000 constructor = Inr one_submitted"
  by (simp add: one_submitted_def transact_def submitResponse_def test_FHE_def constructor_def
      zero_stats_def)

lemma one_submitted_eq:
  "one_submitted = \<lparr>responses = (\<lambda>_. zero_response)(0 :=
        \<lparr>encryptedAge = 30, encryptedIncome = 50000, encryptedSatisfaction = 8,
         publicCategory = 1, timestamp = 1000, isVerified = False\<rparr>),
      categoryStats = (\<lambda>_. zero_stats), responseIds = [0], categoryIds = [1],
      events = [ResponseSubmitted 0 1],
      acl = [AllowThis 30, AllowThis 50000, AllowThis 8, MakePubliclyDecryptable 30,
             MakePubliclyDecryptable 50000, MakePubliclyDecryptable 8]\<rparr>"
  by (simp add: one_submitted_def transact_def submitResponse_def test_FHE_def constructor_def
      zero_stats_def)

lemma one_verified_call:
  "verifyResponse test_FHE 0 [1] [1] [1] one_submitted = Inr one_verified"
  by (simp add: one_verified_def transact_def verifyResponse_def test_FHE_def one_submitted_eq)

lemma one_verified_eq:
  "one_verified = \<lparr>responses = (\<lambda>_. zero_response)(0 :=
        \<lparr>encryptedAge = 30, encryptedIncome = 50000, encryptedSatisfaction = 8,
         publicCategory = 1, timestamp = 1000, isVerified = True\<rparr>),
      categoryStats = (\<lambda>_. zero_stats), responseIds = [0], categoryIds = [1],
      events = [ResponseSubmitted 0 1, ResponseVerified 0],
      acl = [AllowThis 30, AllowThis 50000, AllowThis 8, MakePubliclyDecryptable 30,
             MakePubliclyDecryptable 50000, MakePubliclyDecryptable 8]\<rparr>"
  by (simp add: one_verified_def transact_def verifyResponse_def test_FHE_def one_submitted_eq)

lemma two_submitted_call:
  "submitResponse test_FHE 1 25 [1] 40000 [1] 6 [1] 2000 one_verified = Inr two_submitted"
  by (simp add: two_submitted_def transact_def submitResponse_def test_FHE_def one_verified_eq
      zero_stats_def)

lemma two_submitted_eq:
  "two_submitted = \<lparr>responses = (\<lambda>_. zero_response)(0 :=
        \<lparr>encryptedAge = 30, encryptedIncome = 50000, encryptedSatisfaction = 8,
         publicCategory = 1, timestamp = 1000, isVerified = True\<rparr>, Suc 0 :=
        \<lparr>encryptedAge = 25, encryptedIncome = 40000, encryptedSatisfaction = 6,
         publicCategory = 1, timestamp = 2000, isVerified = False\<rparr>),
      categoryStats = (\<lambda>_. zero_stats), responseIds = [0, 1], categoryIds = [1, 1],
      events = [ResponseSubmitted 0 1, ResponseVerified 0, ResponseSubmitted 1 1],
      acl = [AllowThis 30, AllowThis 50000, AllowThis 8, MakePubliclyDecryptable 30,
             MakePubliclyDecryptable 50000, MakePubliclyDecryptable 8,
             AllowThis 25, AllowThis 40000, AllowThis 6, MakePubliclyDecryptable 25,
             MakePubliclyDecryptable 40000, MakePubliclyDecryptable 6]\<rparr>"
  by (simp add: two_submitted_def transact_def submitResponse_def test_FHE_def one_verified_eq
      zero_stats_def)

lemma two_verified_call:
  "verifyResponse test_FHE 1 [1] [1] [1] two_submitted = Inr two_verified"
  by (simp add: two_verified_def transact_def verifyResponse_def test_FHE_def two_submitted_eq)

lemma two_verified_eq:
  "two_verified = \<lparr>responses = (\<lambda>_. zero_response)(0 :=
        \<lparr>encryptedAge = 30, encryptedIncome = 50000, encryptedSatisfaction = 8,
         publicCategory = 1, timestamp = 1000, isVerified = True\<rparr>, Suc 0 :=
        \<lparr>encryptedAge = 25, encryptedIncome = 40000, encryptedSatisfaction = 6,
         publicCategory = 1, timestamp = 2000, isVerified = True\<rparr>),
      categoryStats = (\<lambda>_. zero_stats), responseIds = [0, 1], categoryIds = [1, 1],
      events = [ResponseSubmitted 0 1, ResponseVerified 0, ResponseSubmitted 1 1,
                ResponseVerified 1],
      acl = [AllowThis 30, AllowThis 50000, AllowThis 8, MakePubliclyDecryptable 30,
             MakePubliclyDecryptable 50000, MakePubliclyDecryptable 8,
             AllowThis 25, AllowThis 40000, AllowThis 6, MakePubliclyDecryptable 25,
             MakePubliclyDecryptable 40000, MakePubliclyDecryptable 6]\<rparr>"
  by (simp add: two_verified_def transact_def verifyResponse_def test_FHE_def two_submitted_eq)

subsection \<open>Reachable storage\<close>

lemma reachable_constructor: "reachable lib constructor"
  by (simp add: reachable_def)

lemma reachable_step: "reachable lib s \<Longrightarrow> step lib s s' \<Longrightarrow> reachable lib s'"
  unfolding reachable_def by (rule rtranclp.rtrancl_into_rtrancl)

lemma reachable_one_submitted: "reachable test_FHE one_submitted"
  by (rule reachable_step [OF reachable_constructor]) (rule step.submit [OF one_submitted_call])

lemma reachable_one_verified: "reachable test_FHE one_verified"
  by (rule reachable_step [OF reachable_one_submitted]) (rule step.verify [OF one_verified_call])

lemma reachable_two_submitted: "reachable test_FHE two_submitted"
  by (rule reachable_step [OF reachable_one_verified]) (rule step.submit [OF two_submitted_call])

lemma reachable_two_verified: "reachable test_FHE two_verified"
  by (rule reachable_step [OF reachable_two_submitted]) (rule step.verify [OF two_verified_call])

lemma step_categoryStats_zero:
  assumes "step lib s s'" "categoryStats s = (\<lambda>_. zero_stats)"
  shows "categoryStats s' = (\<lambda>_. zero_stats)"
  using assms(1)
proof (cases rule: step.cases)
  case (submit category encAge ageProof encIncome incomeProof encSatisfaction
      satisfactionProof block_timestamp)
  then show ?thesis using assms(2) by (elim submit_cases) simp
next
  case (verify responseId ageProof incomeProof satisfactionProof)
  then show ?thesis using assms(2) by (auto dest: verify_cases)
next
  case (update categoryId)
  then show ?thesis using assms(2) by (auto dest!: update_cases simp: zero_stats_def)
qed

lemma reachable_categoryStats:
  "reachable lib s \<Longrightarrow> categoryStats s = (\<lambda>_. zero_stats)"
  unfolding reachable_def
  by (induction rule: rtranclp_induct) (simp_all add: constructor_def step_categoryStats_zero)

lemma step_events:
  assumes "step lib s s'" "categoryStats s = (\<lambda>_. zero_stats)"
    "\<forall>c n. StatsUpdated c n \<notin> set (events s)"
  shows "\<forall>c n. StatsUpdated c n \<notin> set (events s')"
  using assms(1)
proof (cases rule: step.cases)
  case (submit category encAge ageProof encIncome incomeProof encSatisfaction
      satisfactionProof block_timestamp)
  then show ?thesis using assms(3) by (elim submit_cases) simp
next
  case (verify responseId ageProof incomeProof satisfactionProof)
  then show ?thesis using assms(3) by (auto dest: verify_cases)
next
  case (update categoryId)
  then show ?thesis using assms(2) by (auto dest!: update_cases simp: zero_stats_def)
qed

lemma reachable_no_StatsUpdated:
  "reachable lib s \<Longrightarrow> \<forall>c n. StatsUpdated c n \<notin> set (events s)"
  unfolding reachable_def
proof (induction rule: rtranclp_induct)
  case base
  then show ?case by (simp add: constructor_def)
next
  case (step y z)
  then show ?case
    using step_events [of lib y z] reachable_categoryStats [of lib y]
    by (simp add: reachable_def)
qed

lemma step_responseIds:
  assumes "step lib s s'" "responseIds s = [0..<n]"
  shows "responseIds s' = [0..<length (responseIds s')]"
  using assms(1)
proof (cases rule: step.cases)
  case (submit category encAge ageProof encIncome incomeProof encSatisfaction
      satisfactionProof block_timestamp)
  then show ?thesis using assms(2) by (elim submit_cases) simp
next
  case (verify responseId ageProof incomeProof satisfactionProof)
  then show ?thesis using assms(2) by (auto dest: verify_cases)
next
  case (update categoryId)
  then show ?thesis using assms(2) by (auto dest!: update_cases)
qed

lemma reachable_responseIds:
  "reachable lib s \<Longrightarrow> responseIds s = [0..<length (responseIds s)]"
  unfolding reachable_def
proof (induction rule: rtranclp_induct)
  case base
  show ?case by (simp add: constructor_def)
next
  case (step y z)
  from step.hyps(2) step.IH show ?case by (rule step_responseIds)
qed

lemma step_categoryIds:
  assumes "step lib s s'" "categoryStats s = (\<lambda>_. zero_stats)"
    "categoryIds s = map (\<lambda>i. publicCategory (responses s i)) [0..<length (responseIds s)]"
  shows "categoryIds s' = map (\<lambda>i. publicCategory (responses s' i)) [0..<length (responseIds s')]"
  using assms(1)
proof (cases rule: step.cases)
  case (submit category encAge ageProof encIncome incomeProof encSatisfaction
      satisfactionProof block_timestamp)
  then show ?thesis using assms(2,3) by (elim submit_cases) (simp add: zero_stats_def)
next
  case (verify responseId ageProof incomeProof satisfactionProof)
  then show ?thesis using assms(3) by (auto dest!: verify_cases)
next
  case (update categoryId)
  then show ?thesis using assms(3) by (auto dest!: update_cases)
qed

lemma reachable_categoryIds:
  "reachable lib s \<Longrightarrow>
   categoryIds s = map (\<lambda>i. publicCategory (responses s i)) [0..<length (responseIds s)]"
  unfolding reachable_def
proof (induction rule: rtranclp_induct)
  case base
  then show ?case by (simp add: constructor_def)
next
  case (step y z)
  then show ?case
    using step_categoryIds [of lib y z] reachable_categoryStats [of lib y]
    by (simp add: reachable_def)
qed

lemma seeded_cache_eq:
  "seeded_cache = \<lparr>responses = (\<lambda>_. zero_response)(0 :=
        \<lparr>encryptedAge = 30, encryptedIncome = 50000, encryptedSatisfaction = 8,
         publicCategory = 1, timestamp = 1000, isVerified = True\<rparr>, Suc 0 :=
        \<lparr>encryptedAge = 25, encryptedIncome = 40000, encryptedSatisfaction = 6,
         publicCategory = 1, timestamp = 2000, isVerified = True\<rparr>),
      categoryStats = (\<lambda>_. zero_stats)(1 := zero_stats\<lparr>totalResponses := 1\<rparr>),
      responseIds = [0, 1], categoryIds = [1, 1],
      events = [ResponseSubmitted 0 1, ResponseVerified 0, ResponseSubmitted 1 1,
                ResponseVerified 1],
      acl = [AllowThis 30, AllowThis 50000, AllowThis 8, MakePubliclyDecryptable 30,
             MakePubliclyDecryptable 50000, MakePubliclyDecryptable 8,
             AllowThis 25, AllowThis 40000, AllowThis 6, MakePubliclyDecryptable 25,
             MakePubliclyDecryptable 40000, MakePubliclyDecryptable 6]\<rparr>"
  by (simp add: seeded_cache_def two_verified_eq)

lemma seeded_cache_loop:
  "stats_loop test_FHE seeded_cache 1 0 0 0 0 0 = Inr (55, 90000, 14, 2)"
  by (simp add: stats_loop.simps seeded_cache_eq test_FHE_def)

lemma seeded_cache_call:
  "updateCategoryStats test_FHE 1 seeded_cache = Inr recomputed"
  by (simp add: recomputed_def transact_def updateCategoryStats_def seeded_cache_loop)
    (simp add: seeded_cache_eq zero_stats_def)

lemma verified_in_seeded_cache: "verified_in seeded_cache 1 = [0, 1]"
  by (simp add: verified_in_def seeded_cache_eq upt_rec [of 0] upt_rec [of 1])

subsection \<open>The claims\<close>

lemma step_response_stable:
  assumes "step lib s s'" "responseId < length (responseIds s)"
  shows "responseId < length (responseIds s') \<and>
         (isVerified (responses s responseId) \<longrightarrow> isVerified (responses s' responseId)) \<and>
         encryptedAge (responses s' responseId) = encryptedAge (responses s responseId) \<and>
         encryptedIncome (responses s' responseId) = encryptedIncome (responses s responseId) \<and>
         encryptedSatisfaction (responses s' responseId) =
           encryptedSatisfaction (responses s responseId) \<and>
         publicCategory (responses s' responseId) = publicCategory (responses s responseId) \<and>
         timestamp (responses s' responseId) = timestamp (responses s responseId)"
  using assms(1)
proof (cases rule: step.cases)
  case (submit category encAge ageProof encIncome incomeProof encSatisfaction
      satisfactionProof block_timestamp)
  then show ?thesis using assms(2) by (elim submit_cases) simp
next
  case (verify rid ageProof incomeProof satisfactionProof)
  then show ?thesis using assms(2) by (auto dest!: verify_cases)
next
  case (update categoryId)
  then show ?thesis using assms(2) by (auto dest!: update_cases)
qed

lemma steps_response_stable:
  assumes "(step lib)\<^sup>*\<^sup>* s s'" "responseId < length (responseIds s)"
  shows "responseId < length (responseIds s') \<and>
         (isVerified (responses s responseId) \<longrightarrow> isVerified (responses s' responseId)) \<and>
         encryptedAge (responses s' responseId) = encryptedAge (responses s responseId) \<and>
         encryptedIncome (responses s' responseId) = encryptedIncome (responses s responseId) \<and>
         encryptedSatisfaction (responses s' responseId) =
           encryptedSatisfaction (responses s responseId) \<and>
         publicCategory (responses s' responseId) = publicCategory (responses s responseId) \<and>
         timestamp (responses s' responseId) = timestamp (responses s responseId)"
  using assms
proof (induction rule: rtranclp_induct)
  case base
  then show ?case by simp
next
  case (step y z)
  from step.IH [OF step.prems] have "responseId < length (responseIds y)" by simp
  from step_response_stable [OF step.hyps(2) this] step.IH [OF step.prems]
  show ?case by simp
qed

text \<open>
  C9. Along every sequence of successful calls, a stored response keeps its ciphertext
  handles, its category tag and its timestamp, and a verified flag that is true stays
  true: the record is either as it was or as it was with \<open>isVerified\<close> set.
\<close>

theorem response_fields_stable:
  assumes "(step lib)\<^sup>*\<^sup>* s s'" "responseId < length (responseIds s)"
  shows "(isVerified (responses s responseId) \<longrightarrow> isVerified (responses s' responseId)) \<and>
         encryptedAge (responses s' responseId) = encryptedAge (responses s responseId) \<and>
         encryptedIncome (responses s' responseId) = encryptedIncome (responses s responseId) \<and>
         encryptedSatisfaction (responses s' responseId) =
           encryptedSatisfaction (responses s responseId) \<and>
         publicCategory (responses s' responseId) = publicCategory (responses s responseId) \<and>
         timestamp (responses s' responseId) = timestamp (responses s responseId) \<and>
         (responses s' responseId = responses s responseId \<or>
          responses s' responseId = (responses s responseId)\<lparr>isVerified := True\<rparr>)"
proof -
  note st = steps_response_stable [OF assms]
  have "responses s' responseId = responses s responseId \<or>
        responses s' responseId = (responses s responseId)\<lparr>isVerified := True\<rparr>"
  proof (cases "isVerified (responses s' responseId) = isVerified (responses s responseId)")
    case True
    with st have "responses s' responseId = responses s responseId"
      by (intro EncryptedResponse.equality) simp_all
    then show ?thesis ..
  next
    case False
    with st have "isVerified (responses s' responseId)" by auto
    with st have "responses s' responseId = (responses s responseId)\<lparr>isVerified := True\<rparr>"
      by (intro EncryptedResponse.equality) simp_all
    then show ?thesis ..
  qed
  with st show ?thesis by simp
qed

theorem response_fields_stable_witness:
  "(step test_FHE)\<^sup>*\<^sup>* one_submitted two_verified \<and>
   0 < length (responseIds one_submitted) \<and>
   \<not> isVerified (responses one_submitted 0) \<and>
   encryptedAge (responses two_verified 0) = 30 \<and>
   publicCategory (responses two_verified 0) = 1 \<and>
   timestamp (responses two_verified 0) = 1000 \<and>
   responses two_verified 0 = (responses one_submitted 0)\<lparr>isVerified := True\<rparr>"
proof -
  have a: "step test_FHE one_submitted one_verified"
    by (rule step.verify [OF one_verified_call])
  have b: "step test_FHE one_verified two_submitted"
    by (rule step.submit [OF two_submitted_call])
  have c: "step test_FHE two_submitted two_verified"
    by (rule step.verify [OF two_verified_call])
  from a b c have run: "(step test_FHE)\<^sup>*\<^sup>* one_submitted two_verified"
    by (meson rtranclp.rtrancl_into_rtrancl rtranclp.rtrancl_refl)
  have len: "0 < length (responseIds one_submitted)"
    by (simp add: one_submitted_eq)
  have nv: "\<not> isVerified (responses one_submitted 0)"
    by (simp add: one_submitted_eq)
  have v: "isVerified (responses two_verified 0)"
    by (simp add: two_verified_eq)
  have e: "encryptedAge (responses one_submitted 0) = 30"
    "publicCategory (responses one_submitted 0) = 1"
    "timestamp (responses one_submitted 0) = 1000"
    by (simp_all add: one_submitted_eq)
  from response_fields_stable [OF run len] run len nv v e show ?thesis
    by auto
qed

text \<open>
  C4. In every reachable storage the cached \<open>totalResponses\<close> of every category is 0:
  only \<open>updateCategoryStats\<close> writes the cache, and it requires a positive cached count.
  So every call of \<open>updateCategoryStats\<close> reverts with its guard's message, and no
  \<open>StatsUpdated\<close> event is in the log.
\<close>

theorem stats_cache_never_written:
  assumes "reachable lib s"
  shows "(\<forall>c. totalResponses (categoryStats s c) = 0) \<and>
         (\<forall>c. updateCategoryStats lib c s = Inl (Require ''Category has no responses'')) \<and>
         (\<forall>c n. StatsUpdated c n \<notin> set (events s))"
proof -
  have z: "categoryStats s = (\<lambda>_. zero_stats)"
    using assms by (rule reachable_categoryStats)
  have "\<forall>c. totalResponses (categoryStats s c) = 0"
    by (simp add: z zero_stats_def)
  moreover have "\<forall>c. updateCategoryStats lib c s = Inl (Require ''Category has no responses'')"
    by (simp add: updateCategoryStats_def z zero_stats_def)
  ultimately show ?thesis
    using reachable_no_StatsUpdated [OF assms] by blast
qed

theorem stats_cache_never_written_witness:
  "reachable test_FHE two_verified \<and>
   totalResponses (categoryStats two_verified 1) = 0 \<and>
   updateCategoryStats test_FHE 1 two_verified = Inl (Require ''Category has no responses'') \<and>
   StatsUpdated 1 2 \<notin> set (events two_verified)"
  using stats_cache_never_written [OF reachable_two_verified] reachable_two_verified
  by blast

text \<open>
  C10. \<open>getCategoryStats\<close> never reverts, whatever the storage and the category; in a
  reachable storage it returns a zero count and zero accumulators for a category that no
  stored response is tagged with.
\<close>

theorem getCategoryStats_total:
  "(\<exists>r. getCategoryStats s c = Inr r) \<and>
   (reachable lib s \<longrightarrow> tagged s c = [] \<longrightarrow> getCategoryStats s c = Inr (0, 0, 0, 0))"
  by (auto simp: getCategoryStats_def Let_def zero_stats_def dest: reachable_categoryStats)

theorem getCategoryStats_total_witness:
  "reachable test_FHE two_submitted \<and> tagged two_submitted 2 = [] \<and>
   getCategoryStats two_submitted 2 = Inr (0, 0, 0, 0)"
proof -
  have t: "tagged two_submitted 2 = []"
    by (simp add: tagged_def two_submitted_eq upt_rec [of 0] upt_rec [of 1])
  show ?thesis
    using getCategoryStats_total [of two_submitted 2 test_FHE] reachable_two_submitted t
    by blast
qed

text \<open>
  C3, at a failing input. One response has been submitted with category 1, and
  \<open>updateCategoryStats\<close> for category 1 still reverts with "Category has no responses".
\<close>

theorem recompute_rejects_tagged_category:
  "submitResponse test_FHE 1 30 [1] 50000 [1] 8 [1] 1000 constructor = Inr one_submitted \<and>
   tagged one_submitted 1 = [0] \<and>
   updateCategoryStats test_FHE 1 one_submitted = Inl (Require ''Category has no responses'')"
  by (simp add: one_submitted_call)
    (simp add: tagged_def updateCategoryStats_def one_submitted_eq zero_stats_def)

text \<open>
  C5, at a failing input. Two responses submitted with the same category 1 leave the
  category index with the tag twice.
\<close>

theorem category_index_repeats_tag:
  "submitResponse test_FHE 1 25 [1] 40000 [1] 6 [1] 2000 one_verified = Inr two_submitted \<and>
   getAllCategoryIds one_verified = Inr [1] \<and>
   getAllCategoryIds two_submitted = Inr [1, 1] \<and>
   \<not> distinct (categoryIds two_submitted)"
  by (simp add: two_submitted_call)
    (simp add: getAllCategoryIds_def one_verified_eq two_submitted_eq)

text \<open>
  C6. When \<open>updateCategoryStats\<close> succeeds for a category, the cached
  \<open>totalResponses\<close> is the number of stored responses that carry the category and are
  verified, and each cached sum is \<open>FHE.add\<close> folded, from the zero handle, over the
  corresponding handles of exactly those responses, in id order.
\<close>

theorem recompute_sums_verified_in_category:
  assumes "updateCategoryStats lib c s = Inr s'"
  shows "unat (totalResponses (categoryStats s' c)) = length (verified_in s c) \<and>
         sumAge (categoryStats s' c) =
           foldl (FHE_add lib) 0 (map (\<lambda>i. encryptedAge (responses s i)) (verified_in s c)) \<and>
         sumIncome (categoryStats s' c) =
           foldl (FHE_add lib) 0 (map (\<lambda>i. encryptedIncome (responses s i)) (verified_in s c)) \<and>
         sumSatisfaction (categoryStats s' c) =
           foldl (FHE_add lib) 0
             (map (\<lambda>i. encryptedSatisfaction (responses s i)) (verified_in s c))"
proof -
  from update_cases [OF assms] obtain a i t n where
    loop: "stats_loop lib s c 0 0 0 0 0 = Inr (a, i, t, n)" and
    s': "s' = s\<lparr>categoryStats := (categoryStats s)(c :=
                 \<lparr>totalResponses = n, sumAge = a, sumIncome = i, sumSatisfaction = t\<rparr>),
               events := events s @ [StatsUpdated c (ucast n)]\<rparr>"
    by blast
  from stats_loop_result [OF loop] show ?thesis
    by (simp add: s' verified_in_def)
qed

theorem recompute_sums_verified_in_category_witness:
  "updateCategoryStats test_FHE 1 seeded_cache = Inr recomputed \<and>
   verified_in seeded_cache 1 = [0, 1] \<and>
   unat (totalResponses (categoryStats recomputed 1)) = 2 \<and>
   sumAge (categoryStats recomputed 1) = 55 \<and>
   sumIncome (categoryStats recomputed 1) = 90000 \<and>
   sumSatisfaction (categoryStats recomputed 1) = 14"
proof -
  have h: "encryptedAge (responses seeded_cache 0) = 30"
    "encryptedAge (responses seeded_cache (Suc 0)) = 25"
    "encryptedIncome (responses seeded_cache 0) = 50000"
    "encryptedIncome (responses seeded_cache (Suc 0)) = 40000"
    "encryptedSatisfaction (responses seeded_cache 0) = 8"
    "encryptedSatisfaction (responses seeded_cache (Suc 0)) = 6"
    by (simp_all add: seeded_cache_eq)
  have add: "FHE_add test_FHE = (\<lambda>a b. a + b)"
    by (simp add: test_FHE_def)
  from recompute_sums_verified_in_category [OF seeded_cache_call]
  show ?thesis
    by (simp add: seeded_cache_call verified_in_seeded_cache h add)
qed

text \<open>
  C7. When the proof of any one field fails validation, \<open>submitResponse\<close> reverts, with
  the library's revert or with the \<open>require\<close> message of a field, and the storage
  after the call is the storage before it: no record, no id and no category is added.
\<close>

theorem submit_rejects_failed_proof:
  assumes "proof_fails lib encAge ageProof \<or> proof_fails lib encIncome incomeProof \<or>
           proof_fails lib encSatisfaction satisfactionProof"
  shows "submitResponse lib category encAge ageProof encIncome incomeProof encSatisfaction
           satisfactionProof block_timestamp s
           \<in> {Inl FHE_revert, Inl (Require ''Invalid age encryption''),
              Inl (Require ''Invalid income encryption''),
              Inl (Require ''Invalid satisfaction encryption'')} \<and>
         transact (submitResponse lib category encAge ageProof encIncome incomeProof
           encSatisfaction satisfactionProof block_timestamp) s = s \<and>
         getAllResponseIds (transact (submitResponse lib category encAge ageProof encIncome
           incomeProof encSatisfaction satisfactionProof block_timestamp) s)
           = getAllResponseIds s \<and>
         getAllCategoryIds (transact (submitResponse lib category encAge ageProof encIncome
           incomeProof encSatisfaction satisfactionProof block_timestamp) s)
           = getAllCategoryIds s"
proof -
  have r: "submitResponse lib category encAge ageProof encIncome incomeProof encSatisfaction
           satisfactionProof block_timestamp s
           \<in> {Inl FHE_revert, Inl (Require ''Invalid age encryption''),
              Inl (Require ''Invalid income encryption''),
              Inl (Require ''Invalid satisfaction encryption'')}"
    using assms
    by (auto simp: submitResponse_def proof_fails_def Let_def split: option.splits)
  then have "transact (submitResponse lib category encAge ageProof encIncome incomeProof
           encSatisfaction satisfactionProof block_timestamp) s = s"
    by (auto simp: transact_def)
  with r show ?thesis by simp
qed

theorem submit_rejects_failed_proof_witness:
  "proof_fails test_FHE 6 [] \<and>
   submitResponse test_FHE 1 25 [1] 6 [] 40000 [1] 2000 one_verified = Inl FHE_revert \<and>
   transact (submitResponse test_FHE 1 25 [1] 6 [] 40000 [1] 2000) one_verified = one_verified \<and>
   getAllResponseIds (transact (submitResponse test_FHE 1 25 [1] 6 [] 40000 [1] 2000)
     one_verified) = Inr [0]"
proof -
  have f: "proof_fails test_FHE 6 []"
    by (simp add: proof_fails_def test_FHE_def)
  have r: "submitResponse test_FHE 1 25 [1] 6 [] 40000 [1] 2000 one_verified = Inl FHE_revert"
    by (simp add: submitResponse_def test_FHE_def)
  have ids: "getAllResponseIds one_verified = Inr [0]"
    by (simp add: getAllResponseIds_def one_verified_eq)
  from submit_rejects_failed_proof [of test_FHE 25 "[1]" 6 "[]" 40000 "[1]" 1 2000 one_verified]
    f r ids
  show ?thesis by simp
qed

text \<open>
  C8. A successful \<open>submitResponse\<close> on a reachable storage uses the number of stored
  responses as the new id: the ids listed before are \<open>0, 1, ..., n - 1\<close>, the ids listed
  after are these followed by \<open>n\<close> (distinct and increasing), the event carries \<open>n\<close>,
  and the record stored under \<open>n\<close> has the submitted category and timestamp, is not
  verified and holds no plaintexts.
\<close>

theorem submit_allocates_next_id:
  assumes "reachable lib s"
    "submitResponse lib category encAge ageProof encIncome incomeProof encSatisfaction
       satisfactionProof block_timestamp s = Inr s'"
  shows "getAllResponseIds s = Inr [0..<length (responseIds s)] \<and>
         getAllResponseIds s' = Inr ([0..<length (responseIds s)] @ [length (responseIds s)]) \<and>
         distinct (responseIds s') \<and> sorted_wrt (<) (responseIds s') \<and>
         last (events s') = ResponseSubmitted (length (responseIds s)) category \<and>
         publicCategory (responses s' (length (responseIds s))) = category \<and>
         timestamp (responses s' (length (responseIds s))) = block_timestamp \<and>
         \<not> isVerified (responses s' (length (responseIds s))) \<and>
         plaintexts (responses s' (length (responseIds s))) = []"
proof -
  define n where "n = length (responseIds s)"
  have ids: "responseIds s = [0..<n]"
    unfolding n_def using assms(1) by (rule reachable_responseIds)
  have ids': "responseIds s' = [0..<n] @ [n]"
    using assms(2) ids by (elim submit_cases) (simp add: n_def)
  have sorted: "distinct (responseIds s') \<and> sorted_wrt (<) (responseIds s')"
    by (simp add: ids' sorted_wrt_append)
  have rec: "last (events s') = ResponseSubmitted n category \<and>
         publicCategory (responses s' n) = category \<and>
         timestamp (responses s' n) = block_timestamp \<and>
         \<not> isVerified (responses s' n)"
    using assms(2) by (elim submit_cases) (simp add: n_def)
  from ids ids' sorted rec show ?thesis
    by (simp add: getAllResponseIds_def plaintexts_def n_def [symmetric])
qed

theorem submit_allocates_next_id_witness:
  "reachable test_FHE one_verified \<and>
   submitResponse test_FHE 1 25 [1] 40000 [1] 6 [1] 2000 one_verified = Inr two_submitted \<and>
   getAllResponseIds one_verified = Inr [0] \<and>
   getAllResponseIds two_submitted = Inr [0, 1] \<and>
   \<not> isVerified (responses two_submitted 1) \<and>
   last (events two_submitted) = ResponseSubmitted 1 1"
proof -
  have len: "length (responseIds one_verified) = 1"
    by (simp add: one_verified_eq)
  from submit_allocates_next_id [OF reachable_one_verified two_submitted_call]
    reachable_one_verified two_submitted_call
  show ?thesis by (simp add: len)
qed

text \<open>
  C2, as stated, fails: after a successful \<open>verifyResponse\<close> the record of response 0 is
  verified and holds no plaintexts.
\<close>

theorem verified_record_without_plaintexts:
  "verifyResponse test_FHE 0 [1] [1] [1] one_submitted = Inr one_verified \<and>
   isVerified (responses one_verified 0) \<and>
   plaintexts (responses one_verified 0) = [] \<and>
   responses one_verified 0 = (responses one_submitted 0)\<lparr>isVerified := True\<rparr>"
  by (simp add: one_verified_call plaintexts_def)
    (simp add: one_verified_eq one_submitted_eq)

text \<open>
  C2, amended. A successful \<open>verifyResponse\<close> finds the response unverified and changes
  its record only by setting \<open>isVerified\<close>; every other record, the cache, both indexes
  and the access-control log stay as they were, the event \<open>ResponseVerified\<close> is
  appended, and no record holds plaintexts.
\<close>

theorem verify_sets_flag_only:
  assumes "verifyResponse lib responseId ageProof incomeProof satisfactionProof s = Inr s'"
  shows "\<not> isVerified (responses s responseId) \<and>
         responses s' responseId = (responses s responseId)\<lparr>isVerified := True\<rparr> \<and>
         (\<forall>j. j \<noteq> responseId \<longrightarrow> responses s' j = responses s j) \<and>
         categoryStats s' = categoryStats s \<and> responseIds s' = responseIds s \<and>
         categoryIds s' = categoryIds s \<and> acl s' = acl s \<and>
         events s' = events s @ [ResponseVerified responseId] \<and>
         (\<forall>j. plaintexts (responses s' j) = [])"
  using verify_cases [OF assms] by (simp add: plaintexts_def)

theorem verify_sets_flag_only_witness:
  "verifyResponse test_FHE 1 [1] [1] [1] two_submitted = Inr two_verified \<and>
   \<not> isVerified (responses two_submitted 1) \<and>
   responses two_verified 1 = (responses two_submitted 1)\<lparr>isVerified := True\<rparr> \<and>
   responses two_verified 0 = responses two_submitted 0 \<and>
   events two_verified = events two_submitted @ [ResponseVerified 1]"
  using verify_sets_flag_only [OF two_verified_call] two_verified_call
  by simp

text \<open>
  C1, as stated, fails: for the verified response 0 the contract's \<open>verifyResponse\<close>
  reverts with "Response already verified".
\<close>

theorem verify_again_reverts:
  "isVerified (responses one_verified 0) \<and>
   verifyResponse test_FHE 0 [1] [1] [1] one_verified
     = Inl (Require ''Response already verified'')"
  by (simp add: verifyResponse_def one_verified_eq)

subsection \<open>Numbers on the client\<close>

lemma Number_of_bigint_exact: "x < 2 ^ 53 \<Longrightarrow> Number_of_bigint x = Number x"
  by (simp add: Number_of_bigint_def)

lemma or_zero_keeps: "v \<noteq> NaN \<Longrightarrow> or_zero v = v"
  by (auto simp: or_zero_def)

lemma Number_of_bigint_not_NaN: "Number_of_bigint x \<noteq> NaN"
  unfolding Number_of_bigint_def Let_def by (simp split: if_splits)

lemma or_zero_Number_of_bigint: "or_zero (Number_of_bigint x) = Number_of_bigint x"
  by (rule or_zero_keeps) (rule Number_of_bigint_not_NaN)

lemma bit_length_example: "bit_length 9007199254740993 = 54"
  by (simp add: bit_length.simps)

lemma Number_of_bigint_rounds:
  "Number_of_bigint 9007199254740993 = Number 9007199254740992"
  by (simp add: Number_of_bigint_def Let_def bit_length_example)

text \<open>
  C1, amended. For a stored response that is verified, the contract's \<open>verifyResponse\<close>
  reverts with "Response already verified" and leaves the storage unchanged. The client's
  \<open>decryptData\<close>, when its read of the record shows it verified, returns \<open>Number\<close> of
  the stored decrypted value (the value itself when it is below \<open>2 ^ 53\<close>) with a
  success status, having awaited only the read-only contract and the read: not the
  signer, the handle or the decryption.
\<close>

theorem already_verified_outcome:
  "(responseId < length (responseIds s) \<and> isVerified (responses s responseId) \<longrightarrow>
      verifyResponse lib responseId ageProof incomeProof satisfactionProof s
        = Inl (Require ''Response already verified'') \<and>
      transact (verifyResponse lib responseId ageProof incomeProof satisfactionProof) s = s) \<and>
   (isConnected env \<and> address env \<noteq> [] \<and> getContractReadOnly env = Resolves True \<and>
    getBusinessData env surveyId = Resolves d \<and> surveyData_isVerified d \<longrightarrow>
      decryptData env surveyId =
        (Some (Number_of_bigint (surveyData_decryptedValue d)),
         [Await_getContractReadOnly, Await_getBusinessData surveyId,
          SetTransactionStatus St_success ''Data already verified on-chain'']) \<and>
      (surveyData_decryptedValue d < 2 ^ 53 \<longrightarrow>
         fst (decryptData env surveyId) = Some (Number (surveyData_decryptedValue d))))"
proof -
  have contract: "responseId < length (responseIds s) \<and> isVerified (responses s responseId) \<longrightarrow>
      verifyResponse lib responseId ageProof incomeProof satisfactionProof s
        = Inl (Require ''Response already verified'') \<and>
      transact (verifyResponse lib responseId ageProof incomeProof satisfactionProof) s = s"
    by (simp add: verifyResponse_def transact_def)
  have client: "decryptData env surveyId =
        (Some (Number_of_bigint (surveyData_decryptedValue d)),
         [Await_getContractReadOnly, Await_getBusinessData surveyId,
          SetTransactionStatus St_success ''Data already verified on-chain''])"
    if "isConnected env" "address env \<noteq> []" "getContractReadOnly env = Resolves True"
      "getBusinessData env surveyId = Resolves d" "surveyData_isVerified d"
    using that by (simp add: decryptData_def or_zero_Number_of_bigint)
  have exact: "fst (decryptData env surveyId) = Some (Number (surveyData_decryptedValue d))"
    if "isConnected env" "address env \<noteq> []" "getContractReadOnly env = Resolves True"
      "getBusinessData env surveyId = Resolves d" "surveyData_isVerified d"
      "surveyData_decryptedValue d < 2 ^ 53"
    using client [OF that(1-5)] Number_of_bigint_exact [OF that(6)] by simp
  from contract client exact show ?thesis by blast
qed

theorem already_verified_outcome_witness:
  "0 < length (responseIds one_verified) \<and> isVerified (responses one_verified 0) \<and>
   transact (verifyResponse test_FHE 0 [1] [1] [1]) one_verified = one_verified \<and>
   isConnected test_client \<and> address test_client \<noteq> [] \<and>
   getContractReadOnly test_client = Resolves True \<and>
   surveyData_isVerified \<lparr>surveyData_isVerified = True, surveyData_decryptedValue = 8\<rparr> \<and>
   (8::nat) < 2 ^ 53 \<and>
   decryptData test_client ''survey-1'' =
     (Some (Number 8),
      [Await_getContractReadOnly, Await_getBusinessData ''survey-1'',
       SetTransactionStatus St_success ''Data already verified on-chain''])"
proof -
  have c: "0 < length (responseIds one_verified) \<and> isVerified (responses one_verified 0)"
    by (simp add: one_verified_eq)
  have e: "isConnected test_client \<and> address test_client \<noteq> [] \<and>
    getContractReadOnly test_client = Resolves True \<and>
    getBusinessData test_client ''survey-1'' =
      Resolves \<lparr>surveyData_isVerified = True, surveyData_decryptedValue = 8\<rparr>"
    by (simp add: test_client_def)
  have b: "(8::nat) < 2 ^ 53"
    by simp
  have n: "Number_of_bigint 8 = Number 8"
    by (simp add: Number_of_bigint_def)
  from already_verified_outcome [of 0 one_verified test_FHE "[1]" "[1]" "[1]" test_client
      "''survey-1''" "\<lparr>surveyData_isVerified = True, surveyData_decryptedValue = 8\<rparr>"] c e b n
  show ?thesis by simp
qed

end
